theory Spec2Isabelle
  imports Main
begin

section \<open>Wallpapers backend: the watermark pipeline of main.py\<close>

text \<open>
  The theory embeds three functions of \<^verbatim>\<open>src/main.py\<close>:
  \<^verbatim>\<open>_load_image_from_url\<close> (lines 64-77), \<^verbatim>\<open>_apply_watermark\<close> (lines 80-118)
  and \<^verbatim>\<open>watermark_image\<close> (lines 121-132). An Isabelle identifier cannot start with an
  underscore, so the first two are \<open>load_image_from_url\<close> and \<open>apply_watermark\<close>.

  Python integers are \<open>int\<close>; \<^verbatim>\<open>//\<close> is floor division, which is \<open>div\<close> on \<open>int\<close>.
  Image objects live in an explicit store, because \<^verbatim>\<open>ImageDraw\<close> mutates the image it
  draws on while \<^verbatim>\<open>copy\<close>, \<^verbatim>\<open>Image.new\<close>, \<^verbatim>\<open>alpha_composite\<close> and \<^verbatim>\<open>convert\<close>
  allocate new ones. Every \<^verbatim>\<open>raise\<close> is the left injection of a sum type.
\<close>

subsection \<open>Data\<close>

text \<open>Pillow image modes. The program names \<open>RGBA\<close> and \<open>RGB\<close>; a decoded file can have any other.\<close>

datatype mode = RGB | RGBA | OtherMode string

text \<open>
  A pixel is stored as four bands, as Pillow stores both \<open>RGB\<close> and \<open>RGBA\<close> images; in mode
  \<open>RGB\<close> the fourth band is padding and the image has no alpha channel.
\<close>

type_synonym pixel = "int \<times> int \<times> int \<times> int"

record image =
  mode :: mode
  isize :: "int \<times> int"
  px :: "pixel list"

text \<open>
  A font object: \<^verbatim>\<open>ImageFont.truetype(name, size)\<close> or the built-in one of
  \<^verbatim>\<open>ImageFont.load_default()\<close>.
\<close>

datatype font = FreeTypeFont string int | DefaultFont

text \<open>
  Exceptions. \<open>lib_error\<close> are the exceptions raised by the standard library, requests and
  Pillow; none of them is FastAPI's \<^verbatim>\<open>HTTPException\<close>, which only the program raises.
\<close>

datatype lib_error = ValueError string | OSError string | RequestException string
  | UnidentifiedImageError string

datatype exn = HTTPException int string | Raised lib_error

text \<open>A call of an \<^verbatim>\<open>ImageDraw\<close> method, with its arguments.\<close>

datatype draw_call =
  Rectangle "int \<times> int \<times> int \<times> int" pixel
  | Text "int \<times> int" string font pixel

text \<open>
  The libraries the program calls. What Pillow computes from font files and pixels, what the
  network answers and how bytes decode are parameters: the source of these libraries is not part
  of the repository.
\<close>

record lib =
  truetype_available :: "string \<Rightarrow> bool"
  getbbox :: "font \<Rightarrow> string \<Rightarrow> int \<times> int \<times> int \<times> int"
  rectangle_px :: "int \<times> int \<Rightarrow> int \<times> int \<times> int \<times> int \<Rightarrow> pixel \<Rightarrow> pixel list \<Rightarrow> pixel list"
  text_px :: "int \<times> int \<Rightarrow> int \<times> int \<Rightarrow> string \<Rightarrow> font \<Rightarrow> pixel \<Rightarrow> pixel list \<Rightarrow> pixel list"
  over_px :: "pixel \<Rightarrow> pixel \<Rightarrow> pixel"
  convert_px :: "mode \<Rightarrow> mode \<Rightarrow> pixel list \<Rightarrow> lib_error + pixel list"
  urlparse_scheme :: "string \<Rightarrow> lib_error + string"
  requests_get :: "string \<Rightarrow> lib_error + int \<times> nat list"
  image_open :: "nat list \<Rightarrow> lib_error + image"
  save_jpeg :: "image \<Rightarrow> int \<Rightarrow> bool \<Rightarrow> lib_error + nat list"

text \<open>
  The state: the store of image objects (a reference is an index; allocation appends), the
  \<^verbatim>\<open>ImageDraw\<close> calls made so far with the image each drew on, and the URLs fetched so far.
\<close>

record world =
  heap :: "image list"
  drawn :: "(nat \<times> draw_call) list"
  fetched :: "string list"

subsection \<open>Pillow operations\<close>

definition alloc :: "image \<Rightarrow> world \<Rightarrow> nat \<times> world" where
  "alloc im s = (length (heap s), s\<lparr>heap := heap s @ [im]\<rparr>)"

text \<open>\<^verbatim>\<open>img.copy()\<close>: a new object with the same contents.\<close>

definition image_copy :: "nat \<Rightarrow> world \<Rightarrow> nat \<times> world" where
  "image_copy a s = alloc (heap s ! a) s"

text \<open>\<^verbatim>\<open>Image.new(mode, size, color)\<close>.\<close>

definition image_new :: "mode \<Rightarrow> int \<times> int \<Rightarrow> pixel \<Rightarrow> world \<Rightarrow> nat \<times> world" where
  "image_new m sz c s =
     alloc \<lparr>mode = m, isize = sz, px = replicate (nat (fst sz * snd sz)) c\<rparr> s"

text \<open>
  \<^verbatim>\<open>ImageFont.truetype\<close> raises \<^verbatim>\<open>OSError\<close> when the font file cannot be opened.
\<close>

definition truetype :: "lib \<Rightarrow> string \<Rightarrow> int \<Rightarrow> lib_error + font" where
  "truetype L name sz =
     (if truetype_available L name then Inr (FreeTypeFont name sz)
      else Inl (OSError ''cannot open resource''))"

definition load_default :: font where
  "load_default = DefaultFont"

text \<open>\<^verbatim>\<open>draw.textbbox(xy, text, font=font)\<close>: the font's box of the text, moved to \<open>xy\<close>.\<close>

definition textbbox :: "lib \<Rightarrow> int \<times> int \<Rightarrow> string \<Rightarrow> font \<Rightarrow> int \<times> int \<times> int \<times> int" where
  "textbbox L xy text f =
     (case getbbox L f text of
        (l, t, r, b) \<Rightarrow> (l + fst xy, t + snd xy, r + fst xy, b + snd xy))"

text \<open>
  \<^verbatim>\<open>draw.rectangle(coords, fill=c)\<close> on the image \<open>a\<close>. Pillow from 9.5 on raises
  \<^verbatim>\<open>ValueError\<close> for a box whose second corner is left of or above the first; the drawing
  changes the pixels of \<open>a\<close> in place, never its size or mode.
\<close>

definition draw_rectangle ::
  "lib \<Rightarrow> nat \<Rightarrow> int \<times> int \<times> int \<times> int \<Rightarrow> pixel \<Rightarrow> world \<Rightarrow> (lib_error + unit) \<times> world" where
  "draw_rectangle L a coords c s =
     (case coords of (x0, y0, x1, y1) \<Rightarrow>
        if x1 < x0 then (Inl (ValueError ''x1 must be greater than or equal to x0''), s)
        else if y1 < y0 then (Inl (ValueError ''y1 must be greater than or equal to y0''), s)
        else (Inr (),
              s\<lparr>heap := (heap s)[a := (heap s ! a)
                          \<lparr>px := rectangle_px L (isize (heap s ! a)) coords c (px (heap s ! a))\<rparr>],
                drawn := drawn s @ [(a, Rectangle coords c)]\<rparr>))"

text \<open>\<^verbatim>\<open>draw.text(xy, text, font=font, fill=c)\<close> on the image \<open>a\<close>.\<close>

definition draw_text :: "lib \<Rightarrow> nat \<Rightarrow> int \<times> int \<Rightarrow> string \<Rightarrow> font \<Rightarrow> pixel \<Rightarrow> world \<Rightarrow> world" where
  "draw_text L a xy text f c s =
     s\<lparr>heap := (heap s)[a := (heap s ! a)
                 \<lparr>px := text_px L (isize (heap s ! a)) xy text f c (px (heap s ! a))\<rparr>],
       drawn := drawn s @ [(a, Text xy text f c)]\<rparr>"

text \<open>
  \<^verbatim>\<open>Image.alpha_composite(im1, im2)\<close>: both images must have mode \<open>RGBA\<close> and the same
  size, else \<^verbatim>\<open>ValueError\<close>; the result is a new image.
\<close>

definition alpha_composite :: "lib \<Rightarrow> nat \<Rightarrow> nat \<Rightarrow> world \<Rightarrow> (lib_error + nat) \<times> world" where
  "alpha_composite L a b s =
     (let im1 = heap s ! a; im2 = heap s ! b in
      if mode im1 \<noteq> RGBA \<or> mode im2 \<noteq> RGBA then (Inl (ValueError ''image has wrong mode''), s)
      else if isize im1 \<noteq> isize im2 then (Inl (ValueError ''images do not match''), s)
      else (case alloc \<lparr>mode = RGBA, isize = isize im1,
                        px = map2 (\<lambda>dst src. over_px L dst src) (px im1) (px im2)\<rparr> s of
              (r, s') \<Rightarrow> (Inr r, s')))"

text \<open>
  \<^verbatim>\<open>im.convert(m)\<close>: a new image of mode \<open>m\<close> and the same size. From \<open>RGBA\<close> to
  \<open>RGB\<close> the alpha band is dropped (the padding band is set to 255), from \<open>RGB\<close> to \<open>RGBA\<close> an
  opaque alpha band is added, the same mode is a copy; any other conversion is the library's,
  and can raise.
\<close>

definition convert :: "lib \<Rightarrow> mode \<Rightarrow> nat \<Rightarrow> world \<Rightarrow> (lib_error + nat) \<times> world" where
  "convert L m a s =
     (let im = heap s ! a in
      case (if mode im = m then Inr (px im)
            else if (mode im = RGBA \<and> m = RGB) \<or> (mode im = RGB \<and> m = RGBA)
              then Inr (map (\<lambda>(r, g, b, _). (r, g, b, 255)) (px im))
            else convert_px L (mode im) m (px im)) of
        Inl e \<Rightarrow> (Inl e, s)
      | Inr d \<Rightarrow> (case alloc \<lparr>mode = m, isize = isize im, px = d\<rparr> s of
                   (r, s') \<Rightarrow> (Inr r, s')))"

subsection \<open>The watermark geometry (main.py, lines 86-113)\<close>

text \<open>
  The local variables of \<^verbatim>\<open>_apply_watermark\<close> that place the label, computed in the
  order of the source from the width and height of the image; \<open>apply_watermark\<close> below runs
  these lines through \<open>compute_layout\<close>. The fields \<open>xpos\<close> and \<open>ypos\<close> are the
  source's \<^verbatim>\<open>x\<close> and \<^verbatim>\<open>y\<close>. When \<^verbatim>\<open>ImageFont.truetype\<close> raises, the handler
  takes the built-in font.
\<close>

record layout =
  font_size :: int
  font :: font
  text_padding :: int
  text_w :: int
  text_h :: int
  xpos :: int
  ypos :: int
  bg_padding_x :: int
  bg_padding_y :: int
  rect_coords :: "int \<times> int \<times> int \<times> int"
  shadow_offset :: int

definition compute_layout :: "lib \<Rightarrow> int \<Rightarrow> int \<Rightarrow> string \<Rightarrow> layout" where
  "compute_layout L width height text =
     (let font_size = max 24 (width div 40);
          font = (case truetype L ''DejaVuSans.ttf'' font_size of
                    Inr f \<Rightarrow> f
                  | Inl _ \<Rightarrow> load_default);
          text_padding = max 12 (font_size div 3);
          text_bbox = textbbox L (0, 0) text font;
          text_w = (case text_bbox of (b0, b1, b2, b3) \<Rightarrow> b2 - b0);
          text_h = (case text_bbox of (b0, b1, b2, b3) \<Rightarrow> b3 - b1);
          x = width - text_w - text_padding;
          y = height - text_h - text_padding;
          bg_padding_x = text_padding div 2;
          bg_padding_y = text_padding div 3;
          rect_coords = (x - bg_padding_x, y - bg_padding_y,
                         x + text_w + bg_padding_x, y + text_h + bg_padding_y);
          shadow_offset = max 1 (font_size div 20)
      in \<lparr>font_size = font_size, font = font, text_padding = text_padding,
          text_w = text_w, text_h = text_h, xpos = x, ypos = y,
          bg_padding_x = bg_padding_x, bg_padding_y = bg_padding_y,
          rect_coords = rect_coords, shadow_offset = shadow_offset\<rparr>)"

subsection \<open>The compositor (main.py, lines 80-118)\<close>

text \<open>
  \<^verbatim>\<open>ImageDraw.Draw(watermark_layer)\<close> is a handle on the layer: what it draws, it draws on
  that image.
\<close>

definition ImageDraw_Draw :: "nat \<Rightarrow> nat" where
  "ImageDraw_Draw a = a"

definition apply_watermark :: "lib \<Rightarrow> nat \<Rightarrow> string \<Rightarrow> world \<Rightarrow> (lib_error + nat) \<times> world" where
  "apply_watermark L img text s0 =
     (case isize (heap s0 ! img) of (width, height) \<Rightarrow>
     (case image_copy img s0 of (base, s1) \<Rightarrow>
     (case image_new RGBA (width, height) (0, 0, 0, 0) s1 of (watermark_layer, s2) \<Rightarrow>
      (let draw = ImageDraw_Draw watermark_layer;
           g = compute_layout L width height text
       in (case draw_rectangle L draw (rect_coords g) (0, 0, 0, 90) s2 of
             (Inl e, s3) \<Rightarrow> (Inl e, s3)
           | (Inr _, s3) \<Rightarrow>
              (let s4 = draw_text L draw (xpos g + shadow_offset g, ypos g + shadow_offset g)
                          text (font g) (0, 0, 0, 200) s3;
                   s5 = draw_text L draw (xpos g, ypos g) text (font g) (255, 255, 255, 220) s4
               in (case alpha_composite L base watermark_layer s5 of
                     (Inl e, s6) \<Rightarrow> (Inl e, s6)
                   | (Inr watermarked, s6) \<Rightarrow> convert L RGB watermarked s6)))))))"

subsection \<open>The loader (main.py, lines 64-77)\<close>

text \<open>
  The body of the \<^verbatim>\<open>try\<close>. The scheme is checked before \<^verbatim>\<open>requests.get\<close> is called;
  the call is recorded in \<open>fetched\<close> whatever it answers.
\<close>

definition load_image_body :: "lib \<Rightarrow> string \<Rightarrow> world \<Rightarrow> (exn + nat) \<times> world" where
  "load_image_body L url s =
     (case urlparse_scheme L url of
        Inl e \<Rightarrow> (Inl (Raised e), s)
      | Inr scheme \<Rightarrow>
          if scheme \<notin> {''http'', ''https''} then (Inl (Raised (ValueError ''Invalid URL scheme'')), s)
          else
            (let s1 = s\<lparr>fetched := fetched s @ [url]\<rparr> in
             (case requests_get L url of
                Inl e \<Rightarrow> (Inl (Raised e), s1)
              | Inr (status_code, content) \<Rightarrow>
                  if status_code \<noteq> 200
                  then (Inl (HTTPException 400 ''Failed to fetch source image''), s1)
                  else (case image_open L content of
                        Inl e \<Rightarrow> (Inl (Raised e), s1)
                      | Inr im \<Rightarrow>
                          (case alloc im s1 of (opened, s2) \<Rightarrow>
                             (case convert L RGBA opened s2 of
                                (Inl e, s3) \<Rightarrow> (Inl (Raised e), s3)
                              | (Inr img, s3) \<Rightarrow> (Inr img, s3)))))))"

text \<open>
  The two handlers: an \<^verbatim>\<open>HTTPException\<close> is raised again as it is, every other exception
  becomes an \<^verbatim>\<open>HTTPException\<close> of status 400.
\<close>

definition load_image_from_url :: "lib \<Rightarrow> string \<Rightarrow> world \<Rightarrow> (exn + nat) \<times> world" where
  "load_image_from_url L url s =
     (case load_image_body L url s of
        (Inl (HTTPException c d), s') \<Rightarrow> (Inl (HTTPException c d), s')
      | (Inl (Raised e), s') \<Rightarrow> (Inl (HTTPException 400 ''Unable to load image from URL''), s')
      | (Inr img, s') \<Rightarrow> (Inr img, s'))"

subsection \<open>The endpoint (main.py, lines 121-132)\<close>

text \<open>The streamed answer: the body and its media type.\<close>

record response =
  body :: "nat list"
  media_type :: string

text \<open>
  \<^verbatim>\<open>text if text else "made by afthab"\<close>: \<^verbatim>\<open>None\<close> and the empty string are the falsy
  values of an \<^verbatim>\<open>Optional[str]\<close>.
\<close>

definition wm_text :: "string option \<Rightarrow> string" where
  "wm_text text =
     (case text of
        None \<Rightarrow> ''made by afthab''
      | Some t \<Rightarrow> if t = [] then ''made by afthab'' else t)"

definition watermark_image ::
  "lib \<Rightarrow> string \<Rightarrow> string option \<Rightarrow> world \<Rightarrow> (exn + response) \<times> world" where
  "watermark_image L url text s =
     (case load_image_from_url L url s of
        (Inl e, s1) \<Rightarrow> (Inl e, s1)
      | (Inr img, s1) \<Rightarrow>
          (case apply_watermark L img (wm_text text) s1 of
             (Inl e, s2) \<Rightarrow> (Inl (Raised e), s2)
           | (Inr out, s2) \<Rightarrow>
               (case save_jpeg L (heap s2 ! out) 90 True of
                  Inl e \<Rightarrow> (Inl (Raised e), s2)
                | Inr buf \<Rightarrow> (Inr \<lparr>body = buf, media_type = ''image/jpeg''\<rparr>, s2))))"

subsection \<open>Properties used to state the claims\<close>

text \<open>
  A text box as the font library measures it: left, top, right, bottom, with the right edge
  not left of the left one and the bottom edge not above the top one.
\<close>

definition bbox_ok :: "int \<times> int \<times> int \<times> int \<Rightarrow> bool" where
  "bbox_ok bb = (case bb of (l, t, r, b) \<Rightarrow> l \<le> r \<and> t \<le> b)"

text \<open>A point of the canvas \<open>[0, width) \<times> [0, height)\<close>.\<close>

definition in_canvas :: "int \<times> int \<Rightarrow> int \<times> int \<Rightarrow> bool" where
  "in_canvas sz p = (0 \<le> fst p \<and> fst p < fst sz \<and> 0 \<le> snd p \<and> snd p < snd sz)"

text \<open>
  The pixel coordinates a drawing call refers to: both corners of a rectangle, the origin of a
  text.
\<close>

fun referenced :: "draw_call \<Rightarrow> (int \<times> int) list" where
  "referenced (Rectangle (x0, y0, x1, y1) c) = [(x0, y0), (x1, y1)]"
| "referenced (Text xy t f c) = [xy]"

definition referenced_coords :: "(nat \<times> draw_call) list \<Rightarrow> (int \<times> int) list" where
  "referenced_coords calls = concat (map (\<lambda>(a, c). referenced c) calls)"

subsection \<open>A concrete library and concrete stores\<close>

text \<open>
  One instance of the library parameters, on which the model runs: the TrueType font is
  installed and measures a text as half its size per character, the drawing primitives leave the
  pixels alone, and four URLs answer in the four ways a fetch can end.
\<close>

definition sample_lib :: lib where
  "sample_lib =
     \<lparr>truetype_available = (\<lambda>name. name = ''DejaVuSans.ttf''),
      getbbox = (\<lambda>f t. case f of
                   FreeTypeFont name sz \<Rightarrow> (0, 0, (sz div 2) * int (length t), sz)
                 | DefaultFont \<Rightarrow> (0, 0, 6 * int (length t), 11)),
      rectangle_px = (\<lambda>sz coords c d. d),
      text_px = (\<lambda>sz xy t f c d. d),
      over_px = (\<lambda>dst src. dst),
      convert_px = (\<lambda>m m' d. Inr d),
      urlparse_scheme = (\<lambda>url. Inr (takeWhile (\<lambda>c. c \<noteq> CHR '':'') url)),
      requests_get = (\<lambda>url.
         if url = ''http://a/ok.png'' then Inr (200, [137, 80, 78, 71])
         else if url = ''http://a/gone.png'' then Inr (404, [])
         else if url = ''http://a/page.html'' then Inr (200, [60, 104])
         else Inl (RequestException ''connection refused'')),
      image_open = (\<lambda>bytes.
         if bytes = [137, 80, 78, 71]
         then Inr \<lparr>mode = RGB, isize = (2, 1), px = [(1, 2, 3, 255), (4, 5, 6, 255)]\<rparr>
         else Inl (UnidentifiedImageError ''cannot identify image file'')),
      save_jpeg = (\<lambda>im quality optimize. Inr [255, 216, 255])\<rparr>"

text \<open>A store holding one opaque 200 x 100 image, and one holding an opaque 100 x 100 image.\<close>

definition wide_world :: world where
  "wide_world =
     \<lparr>heap = [\<lparr>mode = RGBA, isize = (200, 100), px = replicate 20000 (10, 20, 30, 255)\<rparr>],
      drawn = [], fetched = []\<rparr>"

definition narrow_world :: world where
  "narrow_world =
     \<lparr>heap = [\<lparr>mode = RGBA, isize = (100, 100), px = replicate 10000 (10, 20, 30, 255)\<rparr>],
      drawn = [], fetched = []\<rparr>"


definition empty_world :: world where
  "empty_world = \<lparr>heap = [], drawn = [], fetched = []\<rparr>"

text \<open>
  The store after the loader has fetched and decoded \<^verbatim>\<open>http://a/ok.png\<close>, starting from
  the empty one: the decoded image and its conversion to \<open>RGBA\<close>.
\<close>

definition loaded_world :: world where
  "loaded_world =
     \<lparr>heap = [\<lparr>mode = RGB, isize = (2, 1), px = [(1, 2, 3, 255), (4, 5, 6, 255)]\<rparr>,
              \<lparr>mode = RGBA, isize = (2, 1), px = [(1, 2, 3, 255), (4, 5, 6, 255)]\<rparr>],
      drawn = [], fetched = [''http://a/ok.png'']\<rparr>"

subsection \<open>Lemmas on the geometry and on a run of the compositor\<close>

lemma layout_fields:
  fixes L w h t
  defines "g \<equiv> compute_layout L w h t"
  shows "font_size g = max 24 (w div 40)"
    and "font g = (case truetype L ''DejaVuSans.ttf'' (font_size g) of Inr f \<Rightarrow> f | Inl _ \<Rightarrow> load_default)"
    and "text_padding g = max 12 (font_size g div 3)"
    and "text_w g = (case textbbox L (0, 0) t (font g) of (b0, b1, b2, b3) \<Rightarrow> b2 - b0)"
    and "text_h g = (case textbbox L (0, 0) t (font g) of (b0, b1, b2, b3) \<Rightarrow> b3 - b1)"
    and "xpos g = w - text_w g - text_padding g"
    and "ypos g = h - text_h g - text_padding g"
    and "bg_padding_x g = text_padding g div 2"
    and "bg_padding_y g = text_padding g div 3"
    and "rect_coords g = (xpos g - bg_padding_x g, ypos g - bg_padding_y g,
           xpos g + text_w g + bg_padding_x g, ypos g + text_h g + bg_padding_y g)"
    and "shadow_offset g = max 1 (font_size g div 20)"
  unfolding g_def compute_layout_def Let_def
  by (simp_all only: layout.simps)

lemma layout_text_nonneg:
  assumes "bbox_ok (getbbox L (font (compute_layout L w h t)) t)"
  shows "0 \<le> text_w (compute_layout L w h t)" and "0 \<le> text_h (compute_layout L w h t)"
  using assms
  by (auto simp add: layout_fields(4,5) textbbox_def bbox_ok_def split: prod.splits)

lemma layout_bg_nonneg:
  shows "0 \<le> bg_padding_x (compute_layout L w h t)" and "0 \<le> bg_padding_y (compute_layout L w h t)"
  by (simp_all add: layout_fields(1,3,8,9))

lemma draw_rectangle_layout:
  assumes "bbox_ok (getbbox L (font (compute_layout L w h t)) t)"
  shows "draw_rectangle L a (rect_coords (compute_layout L w h t)) c s =
     (Inr (),
      s\<lparr>heap := (heap s)[a := (heap s ! a)
           \<lparr>px := rectangle_px L (isize (heap s ! a)) (rect_coords (compute_layout L w h t)) c
                   (px (heap s ! a))\<rparr>],
        drawn := drawn s @ [(a, Rectangle (rect_coords (compute_layout L w h t)) c)]\<rparr>)"
proof -
  let ?g = "compute_layout L w h t"
  obtain x0 y0 x1 y1 where r: "rect_coords ?g = (x0, y0, x1, y1)"
    by (cases "rect_coords ?g") auto
  have "0 \<le> text_w ?g" "0 \<le> text_h ?g"
    using layout_text_nonneg[OF assms] by auto
  moreover have "0 \<le> bg_padding_x ?g" by (rule layout_bg_nonneg(1))
  moreover have "0 \<le> bg_padding_y ?g" by (rule layout_bg_nonneg(2))
  ultimately have "0 \<le> text_w ?g" "0 \<le> text_h ?g" "0 \<le> bg_padding_x ?g" "0 \<le> bg_padding_y ?g"
    by auto
  with r have "x0 \<le> x1" "y0 \<le> y1"
    by (auto simp add: layout_fields(10))
  then show ?thesis
    unfolding draw_rectangle_def r by simp
qed

lemma update_last_but_one: "(xs @ [a, b])[Suc (length xs) := c] = xs @ [a, c]"
  by (simp add: list_update_append)

lemma apply_watermark_run:
  fixes L w h t s img
  defines "g \<equiv> compute_layout L w h t"
  defines "n \<equiv> length (heap s)"
  defines "p1 \<equiv> text_px L (w, h) (xpos g, ypos g) t (font g) (255, 255, 255, 220)
                  (text_px L (w, h) (xpos g + shadow_offset g, ypos g + shadow_offset g) t (font g)
                     (0, 0, 0, 200)
                     (rectangle_px L (w, h) (rect_coords g) (0, 0, 0, 90)
                        (replicate (nat (w * h)) (0, 0, 0, 0))))"
  assumes rgba: "mode (heap s ! img) = RGBA"
    and sz: "isize (heap s ! img) = (w, h)"
    and box: "bbox_ok (getbbox L (font (compute_layout L w h t)) t)"
  shows "apply_watermark L img t s =
      (Inr (n + 3),
       s\<lparr>heap := heap s @ [heap s ! img,
                            \<lparr>mode = RGBA, isize = (w, h), px = p1\<rparr>,
                            \<lparr>mode = RGBA, isize = (w, h),
                               px = map2 (\<lambda>dst src. over_px L dst src) (px (heap s ! img)) p1\<rparr>,
                            \<lparr>mode = RGB, isize = (w, h),
                               px = map (\<lambda>(r, g, b, _). (r, g, b, 255))
                                      (map2 (\<lambda>dst src. over_px L dst src) (px (heap s ! img)) p1)\<rparr>],
         drawn := drawn s @
           [(n + 1, Rectangle (rect_coords g) (0, 0, 0, 90)),
            (n + 1, Text (xpos g + shadow_offset g, ypos g + shadow_offset g) t (font g) (0, 0, 0, 200)),
            (n + 1, Text (xpos g, ypos g) t (font g) (255, 255, 255, 220))]\<rparr>)"
  unfolding apply_watermark_def g_def n_def p1_def
  by (simp add: image_copy_def image_new_def alloc_def ImageDraw_Draw_def Let_def sz
      draw_rectangle_layout[OF box] draw_text_def alpha_composite_def convert_def nth_append rgba
      update_last_but_one)

lemma apply_watermark_wrong_mode:
  fixes L w h t s img
  defines "g \<equiv> compute_layout L w h t"
  defines "n \<equiv> length (heap s)"
  defines "p1 \<equiv> text_px L (w, h) (xpos g, ypos g) t (font g) (255, 255, 255, 220)
                  (text_px L (w, h) (xpos g + shadow_offset g, ypos g + shadow_offset g) t (font g)
                     (0, 0, 0, 200)
                     (rectangle_px L (w, h) (rect_coords g) (0, 0, 0, 90)
                        (replicate (nat (w * h)) (0, 0, 0, 0))))"
  assumes rgba: "mode (heap s ! img) \<noteq> RGBA"
    and sz: "isize (heap s ! img) = (w, h)"
    and box: "bbox_ok (getbbox L (font (compute_layout L w h t)) t)"
  shows "apply_watermark L img t s =
      (Inl (ValueError ''image has wrong mode''),
       s\<lparr>heap := heap s @ [heap s ! img, \<lparr>mode = RGBA, isize = (w, h), px = p1\<rparr>],
         drawn := drawn s @
           [(n + 1, Rectangle (rect_coords g) (0, 0, 0, 90)),
            (n + 1, Text (xpos g + shadow_offset g, ypos g + shadow_offset g) t (font g) (0, 0, 0, 200)),
            (n + 1, Text (xpos g, ypos g) t (font g) (255, 255, 255, 220))]\<rparr>)"
  unfolding apply_watermark_def g_def n_def p1_def
  by (simp add: image_copy_def image_new_def alloc_def ImageDraw_Draw_def Let_def sz
      draw_rectangle_layout[OF box] draw_text_def alpha_composite_def convert_def nth_append rgba
      update_last_but_one)

lemma apply_watermark_frame:
  "take (length (heap s)) (heap (snd (apply_watermark L img t s))) = heap s"
  unfolding apply_watermark_def
  by (simp add: image_copy_def image_new_def alloc_def ImageDraw_Draw_def Let_def
      draw_rectangle_def draw_text_def alpha_composite_def convert_def nth_append
      split: prod.splits if_splits sum.splits)

lemma apply_watermark_fresh:
  "fst (apply_watermark L img t s) = Inr out \<Longrightarrow>
     length (heap s) \<le> out \<and> out < length (heap (snd (apply_watermark L img t s)))"
  unfolding apply_watermark_def
  by (auto simp add: image_copy_def image_new_def alloc_def ImageDraw_Draw_def Let_def
      draw_rectangle_def draw_text_def alpha_composite_def convert_def nth_append
      split: prod.splits if_splits sum.splits)

lemma apply_watermark_copy:
  "heap (snd (apply_watermark L img t s)) ! length (heap s) = heap s ! img"
  unfolding apply_watermark_def
  by (simp add: image_copy_def image_new_def alloc_def ImageDraw_Draw_def Let_def
      draw_rectangle_def draw_text_def alpha_composite_def convert_def nth_append
      split: prod.splits if_splits sum.splits)

lemma apply_watermark_drawn:
  fixes L w h t s img
  defines "g \<equiv> compute_layout L w h t"
  defines "n \<equiv> length (heap s)"
  assumes sz: "isize (heap s ! img) = (w, h)"
    and box: "bbox_ok (getbbox L (font (compute_layout L w h t)) t)"
  shows "drawn (snd (apply_watermark L img t s)) =
           drawn s @
           [(n + 1, Rectangle (rect_coords g) (0, 0, 0, 90)),
            (n + 1, Text (xpos g + shadow_offset g, ypos g + shadow_offset g) t (font g) (0, 0, 0, 200)),
            (n + 1, Text (xpos g, ypos g) t (font g) (255, 255, 255, 220))]"
proof (cases "mode (heap s ! img) = RGBA")
  case True
  show ?thesis
    unfolding g_def n_def by (simp add: apply_watermark_run [OF True sz box])
next
  case False
  show ?thesis
    unfolding g_def n_def by (simp add: apply_watermark_wrong_mode [OF False sz box])
qed

lemma apply_watermark_layer:
  fixes L w h t s img
  defines "g \<equiv> compute_layout L w h t"
  assumes sz: "isize (heap s ! img) = (w, h)"
    and box: "bbox_ok (getbbox L (font (compute_layout L w h t)) t)"
  shows "heap (snd (apply_watermark L img t s)) ! Suc (length (heap s)) =
           \<lparr>mode = RGBA, isize = (w, h),
            px = text_px L (w, h) (xpos g, ypos g) t (font g) (255, 255, 255, 220)
                  (text_px L (w, h) (xpos g + shadow_offset g, ypos g + shadow_offset g) t (font g)
                     (0, 0, 0, 200)
                     (rectangle_px L (w, h) (rect_coords g) (0, 0, 0, 90)
                        (replicate (nat (w * h)) (0, 0, 0, 0))))\<rparr>"
proof (cases "mode (heap s ! img) = RGBA")
  case True
  show ?thesis
    unfolding g_def by (simp add: apply_watermark_run [OF True sz box] nth_append)
next
  case False
  show ?thesis
    unfolding g_def by (simp add: apply_watermark_wrong_mode [OF False sz box] nth_append)
qed

lemma sample_layout_wide:
  shows "font (compute_layout sample_lib 200 100 ''made by afthab'') = FreeTypeFont ''DejaVuSans.ttf'' 24"
    and "bbox_ok (getbbox sample_lib (font (compute_layout sample_lib 200 100 ''made by afthab''))
           ''made by afthab'')"
proof -
  show f: "font (compute_layout sample_lib 200 100 ''made by afthab'') = FreeTypeFont ''DejaVuSans.ttf'' 24"
    by (simp add: layout_fields(1,2) truetype_def sample_lib_def)
  show "bbox_ok (getbbox sample_lib (font (compute_layout sample_lib 200 100 ''made by afthab''))
           ''made by afthab'')"
    unfolding f by (simp add: bbox_ok_def sample_lib_def)
qed

lemma sample_layout_narrow:
  shows "font (compute_layout sample_lib 100 100 ''made by afthab'') = FreeTypeFont ''DejaVuSans.ttf'' 24"
    and "bbox_ok (getbbox sample_lib (font (compute_layout sample_lib 100 100 ''made by afthab''))
           ''made by afthab'')"
proof -
  show f: "font (compute_layout sample_lib 100 100 ''made by afthab'') = FreeTypeFont ''DejaVuSans.ttf'' 24"
    by (simp add: layout_fields(1,2) truetype_def sample_lib_def)
  show "bbox_ok (getbbox sample_lib (font (compute_layout sample_lib 100 100 ''made by afthab''))
           ''made by afthab'')"
    unfolding f by (simp add: bbox_ok_def sample_lib_def)
qed

lemma wide_world_image:
  shows "0 < length (heap wide_world)"
    and "length (heap wide_world) = 1"
    and "mode (heap wide_world ! 0) = RGBA"
    and "isize (heap wide_world ! 0) = (200, 100)"
    and "drawn wide_world = []"
  by (simp_all add: wide_world_def)


lemma narrow_world_image:
  shows "0 < length (heap narrow_world)"
    and "length (heap narrow_world) = 1"
    and "mode (heap narrow_world ! 0) = RGBA"
    and "isize (heap narrow_world ! 0) = (100, 100)"
    and "drawn narrow_world = []"
  by (simp_all add: narrow_world_def)

lemma sample_load:
  "load_image_from_url sample_lib ''http://a/ok.png'' empty_world = (Inr 1, loaded_world)"
  by (simp add: load_image_from_url_def load_image_body_def sample_lib_def empty_world_def
      loaded_world_def alloc_def convert_def Let_def)

lemma loader_returns_rgba:
  assumes "load_image_from_url L url s = (Inr img, s')"
  shows "img < length (heap s') \<and> mode (heap s' ! img) = RGBA"
  using assms
  by (auto simp add: load_image_from_url_def load_image_body_def alloc_def convert_def Let_def
      nth_append split: sum.splits prod.splits if_splits exn.splits)

text \<open>
  What the loader hands over is always accepted by the compositor: the image it returns has
  mode \<open>RGBA\<close>, whatever the mode of the decoded file was.
\<close>

lemma loaded_image_composites:
  assumes "load_image_from_url L url s = (Inr img, s1)"
    and "isize (heap s1 ! img) = (w, h)"
    and "bbox_ok (getbbox L (font (compute_layout L w h t)) t)"
  shows "fst (apply_watermark L img t s1) = Inr (length (heap s1) + 3)
         \<and> isize (heap (snd (apply_watermark L img t s1)) ! (length (heap s1) + 3)) = (w, h)
         \<and> mode (heap (snd (apply_watermark L img t s1)) ! (length (heap s1) + 3)) = RGB"
proof -
  from loader_returns_rgba [OF assms(1)] have "mode (heap s1 ! img) = RGBA"
    by simp
  from apply_watermark_run [OF this assms(2,3)] show ?thesis
    by (simp add: nth_append)
qed

section \<open>The claims\<close>

text \<open>
  C2. For every input image the font size computed by the compositor is
  \<open>max(24, width / 40)\<close> pixels, the division being the integer division of the source
  (\<^verbatim>\<open>width // 40\<close>): 24 for a width of 960, 100 for a width of 4000. The font used is the
  TrueType font at that size, or the built-in font when the TrueType one cannot be opened.
\<close>

theorem font_size_formula:
  "font_size (compute_layout L w h t) = max 24 (w div 40)
   \<and> font_size (compute_layout L 960 h t) = 24
   \<and> font_size (compute_layout L 4000 h t) = 100
   \<and> font (compute_layout L w h t)
       \<in> {FreeTypeFont ''DejaVuSans.ttf'' (max 24 (w div 40)), DefaultFont}"
  by (simp add: layout_fields(1,2) truetype_def load_default_def)

theorem font_size_formula_witness:
  "font_size (compute_layout sample_lib 1000 600 ''made by afthab'') = 25
   \<and> font (compute_layout sample_lib 1000 600 ''made by afthab'')
       \<in> {FreeTypeFont ''DejaVuSans.ttf'' 25, DefaultFont}"
  using font_size_formula [of sample_lib 1000 600 "''made by afthab''"] by simp

text \<open>
  C3. For every computed font size the text padding is \<open>max(12, fontSize / 3)\<close> pixels
  (integer division); for a font size of 100 it is 33.
\<close>

theorem text_padding_formula:
  "text_padding (compute_layout L w h t) = max 12 (font_size (compute_layout L w h t) div 3)
   \<and> (font_size (compute_layout L w h t) = 100 \<longrightarrow> text_padding (compute_layout L w h t) = 33)"
  by (simp add: layout_fields(3))

theorem text_padding_formula_witness:
  "font_size (compute_layout sample_lib 4000 3000 ''made by afthab'') = 100
   \<and> text_padding (compute_layout sample_lib 4000 3000 ''made by afthab'') = 33"
proof -
  have fs: "font_size (compute_layout sample_lib 4000 3000 ''made by afthab'') = 100"
    by (simp add: layout_fields(1))
  with text_padding_formula [of sample_lib 4000 3000 "''made by afthab''"]
  show ?thesis by blast
qed

text \<open>
  C4. For every image size and text, with \<open>(textW, textH)\<close> the width and height of the box
  that \<^verbatim>\<open>textbbox\<close> measures for the text at the origin in the chosen font, the anchor is
  \<open>x = width - textW - padding\<close> and \<open>y = height - textH - padding\<close>.
\<close>

theorem anchor_bottom_right:
  "(case textbbox L (0, 0) t (font (compute_layout L w h t)) of
      (b0, b1, b2, b3) \<Rightarrow>
        text_w (compute_layout L w h t) = b2 - b0
        \<and> text_h (compute_layout L w h t) = b3 - b1
        \<and> xpos (compute_layout L w h t)
            = w - (b2 - b0) - text_padding (compute_layout L w h t)
        \<and> ypos (compute_layout L w h t)
            = h - (b3 - b1) - text_padding (compute_layout L w h t))"
  by (simp add: layout_fields(4,5,6,7) split: prod.splits)

theorem anchor_bottom_right_witness:
  "textbbox sample_lib (0, 0) ''made by afthab''
       (font (compute_layout sample_lib 200 100 ''made by afthab'')) = (0, 0, 168, 24)
   \<and> xpos (compute_layout sample_lib 200 100 ''made by afthab'') = 20
   \<and> ypos (compute_layout sample_lib 200 100 ''made by afthab'') = 64"
proof -
  have f: "font (compute_layout sample_lib 200 100 ''made by afthab'')
             = FreeTypeFont ''DejaVuSans.ttf'' 24"
    by (simp add: layout_fields(1,2) truetype_def sample_lib_def)
  have b: "textbbox sample_lib (0, 0) ''made by afthab''
             (font (compute_layout sample_lib 200 100 ''made by afthab'')) = (0, 0, 168, 24)"
    unfolding f by (simp add: textbbox_def sample_lib_def)
  have p: "text_padding (compute_layout sample_lib 200 100 ''made by afthab'') = 12"
    by (simp add: layout_fields(1,3))
  from anchor_bottom_right [where L = sample_lib and w = 200 and h = 100 and t = "''made by afthab''"] b p
  show ?thesis by simp
qed






text \<open>
  C6. For every image and every text measured with a well-formed box, after the rectangle the
  compositor draws the text twice on the overlay, a new transparent \<open>RGBA\<close> image of the
  size of the source: first at \<open>(x + offset, y + offset)\<close> in black at alpha 200, then at
  \<open>(x, y)\<close> in white at alpha 220, with \<open>offset = max(1, fontSize div 20)\<close>.
\<close>

theorem shadow_then_label:
  assumes "img < length (heap s)"
    and "isize (heap s ! img) = (w, h)"
    and "bbox_ok (getbbox L (font (compute_layout L w h t)) t)"
  shows "(let g = compute_layout L w h t;
              offset = max 1 (font_size g div 20);
              layer = length (heap s) + 1;
              s' = snd (apply_watermark L img t s)
          in drop (length (drawn s) + 1) (drawn s') =
               [(layer, Text (xpos g + offset, ypos g + offset) t (font g) (0, 0, 0, 200)),
                (layer, Text (xpos g, ypos g) t (font g) (255, 255, 255, 220))]
             \<and> mode (heap s' ! layer) = RGBA
             \<and> isize (heap s' ! layer) = (w, h)
             \<and> px (heap s' ! layer) =
                 text_px L (w, h) (xpos g, ypos g) t (font g) (255, 255, 255, 220)
                   (text_px L (w, h) (xpos g + offset, ypos g + offset) t (font g) (0, 0, 0, 200)
                      (rectangle_px L (w, h) (rect_coords g) (0, 0, 0, 90)
                         (replicate (nat (w * h)) (0, 0, 0, 0)))))"
  by (simp add: apply_watermark_drawn [OF assms(2,3)] apply_watermark_layer [OF assms(2,3)]
      layout_fields(11) Let_def)

theorem shadow_then_label_witness:
  "0 < length (heap wide_world)
   \<and> isize (heap wide_world ! 0) = (200, 100)
   \<and> bbox_ok (getbbox sample_lib (font (compute_layout sample_lib 200 100 ''made by afthab''))
        ''made by afthab'')
   \<and> drop 1 (drawn (snd (apply_watermark sample_lib 0 ''made by afthab'' wide_world))) =
       [(2, Text (21, 65) ''made by afthab'' (FreeTypeFont ''DejaVuSans.ttf'' 24) (0, 0, 0, 200)),
        (2, Text (20, 64) ''made by afthab'' (FreeTypeFont ''DejaVuSans.ttf'' 24) (255, 255, 255, 220))]
   \<and> mode (heap (snd (apply_watermark sample_lib 0 ''made by afthab'' wide_world)) ! 2) = RGBA
   \<and> isize (heap (snd (apply_watermark sample_lib 0 ''made by afthab'' wide_world)) ! 2) = (200, 100)"
proof -
  have "textbbox sample_lib (0, 0) ''made by afthab''
          (font (compute_layout sample_lib 200 100 ''made by afthab'')) = (0, 0, 168, 24)"
    unfolding sample_layout_wide(1) by (simp add: textbbox_def sample_lib_def)
  then have g: "font_size (compute_layout sample_lib 200 100 ''made by afthab'') = 24"
    "xpos (compute_layout sample_lib 200 100 ''made by afthab'') = 20"
    "ypos (compute_layout sample_lib 200 100 ''made by afthab'') = 64"
    by (simp_all add: layout_fields(1,3,4,5,6,7))
  from shadow_then_label [OF wide_world_image(1,4) sample_layout_wide(2)]
  have "drop 1 (drawn (snd (apply_watermark sample_lib 0 ''made by afthab'' wide_world))) =
       [(2, Text (21, 65) ''made by afthab'' (FreeTypeFont ''DejaVuSans.ttf'' 24) (0, 0, 0, 200)),
        (2, Text (20, 64) ''made by afthab'' (FreeTypeFont ''DejaVuSans.ttf'' 24) (255, 255, 255, 220))]
   \<and> mode (heap (snd (apply_watermark sample_lib 0 ''made by afthab'' wide_world)) ! 2) = RGBA
   \<and> isize (heap (snd (apply_watermark sample_lib 0 ''made by afthab'' wide_world)) ! 2) = (200, 100)"
    by (simp add: g sample_layout_wide(1) wide_world_image(2,5) Let_def numeral_2_eq_2)
  with wide_world_image(1,4) sample_layout_wide(2) show ?thesis by blast
qed

text \<open>
  C7. For every image in the store and every text, whatever the outcome, the compositor leaves
  every object that was in the store unchanged, the input image among them; the object it
  allocates first is a copy of the input; and the image it returns is a new object, not the
  input.
\<close>

theorem input_image_unchanged:
  assumes "img < length (heap s)"
  shows "take (length (heap s)) (heap (snd (apply_watermark L img t s))) = heap s
         \<and> heap (snd (apply_watermark L img t s)) ! img = heap s ! img
         \<and> heap (snd (apply_watermark L img t s)) ! length (heap s) = heap s ! img
         \<and> (case fst (apply_watermark L img t s) of
              Inl e \<Rightarrow> True
            | Inr out \<Rightarrow> length (heap s) \<le> out
                \<and> out < length (heap (snd (apply_watermark L img t s))) \<and> out \<noteq> img)"
proof -
  let ?s' = "snd (apply_watermark L img t s)"
  have fr: "take (length (heap s)) (heap ?s') = heap s"
    by (rule apply_watermark_frame)
  have "heap ?s' ! img = take (length (heap s)) (heap ?s') ! img"
    using assms by simp
  with fr have same: "heap ?s' ! img = heap s ! img"
    by simp
  have new: "(case fst (apply_watermark L img t s) of
              Inl e \<Rightarrow> True
            | Inr out \<Rightarrow> length (heap s) \<le> out \<and> out < length (heap ?s') \<and> out \<noteq> img)"
  proof (cases "fst (apply_watermark L img t s)")
    case (Inl e)
    then show ?thesis by simp
  next
    case (Inr out)
    from apply_watermark_fresh [OF Inr] assms Inr show ?thesis by simp
  qed
  from fr same apply_watermark_copy new show ?thesis by blast
qed

theorem input_image_unchanged_witness:
  "0 < length (heap wide_world)
   \<and> take 1 (heap (snd (apply_watermark sample_lib 0 ''made by afthab'' wide_world)))
       = heap wide_world
   \<and> heap (snd (apply_watermark sample_lib 0 ''made by afthab'' wide_world)) ! 0
       = heap wide_world ! 0
   \<and> heap (snd (apply_watermark sample_lib 0 ''made by afthab'' wide_world)) ! 1
       = heap wide_world ! 0
   \<and> fst (apply_watermark sample_lib 0 ''made by afthab'' wide_world) = Inr 4"
proof -
  have r: "fst (apply_watermark sample_lib 0 ''made by afthab'' wide_world) = Inr 4"
    by (simp add: apply_watermark_run [OF wide_world_image(3,4) sample_layout_wide(2)]
        wide_world_image(2))
  from input_image_unchanged [OF wide_world_image(1), of sample_lib "''made by afthab''"]
  have "take 1 (heap (snd (apply_watermark sample_lib 0 ''made by afthab'' wide_world)))
       = heap wide_world
   \<and> heap (snd (apply_watermark sample_lib 0 ''made by afthab'' wide_world)) ! 0
       = heap wide_world ! 0
   \<and> heap (snd (apply_watermark sample_lib 0 ''made by afthab'' wide_world)) ! 1
       = heap wide_world ! 0"
    by (simp add: wide_world_image(2))
  with r wide_world_image(1) show ?thesis by blast
qed

text \<open>
  C9. As stated (every referenced coordinate lies on the canvas, also when the text is wider
  than the image) the claim fails: the compositor does not clamp. On a 100 x 100 image a text
  measured 168 pixels wide is anchored at \<open>x = -80\<close>, the rectangle starts at \<open>x = -86\<close> and
  the shadow at \<open>x = -79\<close>.
\<close>

theorem wide_text_leaves_canvas:
  "isize (heap narrow_world ! 0) = (100, 100)
   \<and> drawn (snd (apply_watermark sample_lib 0 ''made by afthab'' narrow_world)) =
       [(2, Rectangle (- 86, 60, 94, 92) (0, 0, 0, 90)),
        (2, Text (- 79, 65) ''made by afthab'' (FreeTypeFont ''DejaVuSans.ttf'' 24) (0, 0, 0, 200)),
        (2, Text (- 80, 64) ''made by afthab'' (FreeTypeFont ''DejaVuSans.ttf'' 24)
              (255, 255, 255, 220))]
   \<and> \<not> list_all (in_canvas (100, 100))
         (referenced_coords (drawn (snd (apply_watermark sample_lib 0 ''made by afthab'' narrow_world))))"
proof -
  have "textbbox sample_lib (0, 0) ''made by afthab''
          (font (compute_layout sample_lib 100 100 ''made by afthab'')) = (0, 0, 168, 24)"
    unfolding sample_layout_narrow(1) by (simp add: textbbox_def sample_lib_def)
  then have g: "font_size (compute_layout sample_lib 100 100 ''made by afthab'') = 24"
    "text_padding (compute_layout sample_lib 100 100 ''made by afthab'') = 12"
    "text_w (compute_layout sample_lib 100 100 ''made by afthab'') = 168"
    "text_h (compute_layout sample_lib 100 100 ''made by afthab'') = 24"
    "xpos (compute_layout sample_lib 100 100 ''made by afthab'') = - 80"
    "ypos (compute_layout sample_lib 100 100 ''made by afthab'') = 64"
    by (simp_all add: layout_fields(1,3,4,5,6,7))
  then have g': "rect_coords (compute_layout sample_lib 100 100 ''made by afthab'') = (- 86, 60, 94, 92)"
    "shadow_offset (compute_layout sample_lib 100 100 ''made by afthab'') = 1"
    by (simp_all add: layout_fields(8,9,10,11))
  have d: "drawn (snd (apply_watermark sample_lib 0 ''made by afthab'' narrow_world)) =
       [(2, Rectangle (- 86, 60, 94, 92) (0, 0, 0, 90)),
        (2, Text (- 79, 65) ''made by afthab'' (FreeTypeFont ''DejaVuSans.ttf'' 24) (0, 0, 0, 200)),
        (2, Text (- 80, 64) ''made by afthab'' (FreeTypeFont ''DejaVuSans.ttf'' 24)
              (255, 255, 255, 220))]"
    by (simp add: apply_watermark_drawn [OF narrow_world_image(4) sample_layout_narrow(2)]
        g g' sample_layout_narrow(1) narrow_world_image(2,5) numeral_2_eq_2)
  have "\<not> list_all (in_canvas (100, 100))
         (referenced_coords (drawn (snd (apply_watermark sample_lib 0 ''made by afthab'' narrow_world))))"
    unfolding d by (simp add: referenced_coords_def in_canvas_def)
  with d narrow_world_image(4) show ?thesis by blast
qed

text \<open>
  C9, amended. For every image and every text measured with a well-formed box, the coordinates
  the compositor refers to (both corners of the rectangle, the shadow origin, the text origin)
  all lie in \<open>[0, width) \<times> [0, height)\<close> exactly when the label with its plate fits:
  \<open>textW + padding + padX \<le> width\<close> and \<open>textH + padding + padY \<le> height\<close>.
\<close>

theorem coordinates_on_canvas_iff_label_fits:
  assumes "img < length (heap s)"
    and "isize (heap s ! img) = (w, h)"
    and "bbox_ok (getbbox L (font (compute_layout L w h t)) t)"
  shows "list_all (in_canvas (w, h))
           (referenced_coords (drop (length (drawn s)) (drawn (snd (apply_watermark L img t s)))))
         = (text_w (compute_layout L w h t) + text_padding (compute_layout L w h t)
              + bg_padding_x (compute_layout L w h t) \<le> w
            \<and> text_h (compute_layout L w h t) + text_padding (compute_layout L w h t)
              + bg_padding_y (compute_layout L w h t) \<le> h)"
proof -
  let ?g = "compute_layout L w h t"
  have tw: "0 \<le> text_w ?g" and th: "0 \<le> text_h ?g"
    using layout_text_nonneg [OF assms(3)] by auto
  have fs: "24 \<le> font_size ?g"
    by (simp add: layout_fields(1))
  have pad: "12 \<le> text_padding ?g"
    by (simp add: layout_fields(3))
  have padx: "0 \<le> bg_padding_x ?g" "bg_padding_x ?g < text_padding ?g"
    using pad by (simp_all add: layout_fields(8))
  have pady: "0 \<le> bg_padding_y ?g" "bg_padding_y ?g < text_padding ?g"
    using pad by (simp_all add: layout_fields(9))
  have "font_size ?g div 20 \<le> font_size ?g div 3"
    using fs by simp
  moreover have "font_size ?g div 3 \<le> text_padding ?g"
    by (simp add: layout_fields(3))
  ultimately have off: "1 \<le> shadow_offset ?g" "shadow_offset ?g < text_padding ?g"
    using pad by (simp_all add: layout_fields(11))
  have x: "xpos ?g = w - text_w ?g - text_padding ?g"
    by (rule layout_fields(6))
  have y: "ypos ?g = h - text_h ?g - text_padding ?g"
    by (rule layout_fields(7))
  have "referenced_coords (drop (length (drawn s)) (drawn (snd (apply_watermark L img t s)))) =
          [(xpos ?g - bg_padding_x ?g, ypos ?g - bg_padding_y ?g),
           (xpos ?g + text_w ?g + bg_padding_x ?g, ypos ?g + text_h ?g + bg_padding_y ?g),
           (xpos ?g + shadow_offset ?g, ypos ?g + shadow_offset ?g),
           (xpos ?g, ypos ?g)]"
    by (simp add: apply_watermark_drawn [OF assms(2,3)] referenced_coords_def layout_fields(10))
  then show ?thesis
    using tw th padx pady off x y by (auto simp add: in_canvas_def)
qed

theorem coordinates_on_canvas_iff_label_fits_witness:
  "0 < length (heap wide_world)
   \<and> isize (heap wide_world ! 0) = (200, 100)
   \<and> bbox_ok (getbbox sample_lib (font (compute_layout sample_lib 200 100 ''made by afthab''))
        ''made by afthab'')
   \<and> text_w (compute_layout sample_lib 200 100 ''made by afthab'') = 168
   \<and> text_h (compute_layout sample_lib 200 100 ''made by afthab'') = 24
   \<and> list_all (in_canvas (200, 100))
        (referenced_coords (drop (length (drawn wide_world))
           (drawn (snd (apply_watermark sample_lib 0 ''made by afthab'' wide_world)))))"
proof -
  have "textbbox sample_lib (0, 0) ''made by afthab''
          (font (compute_layout sample_lib 200 100 ''made by afthab'')) = (0, 0, 168, 24)"
    unfolding sample_layout_wide(1) by (simp add: textbbox_def sample_lib_def)
  then have g: "text_padding (compute_layout sample_lib 200 100 ''made by afthab'') = 12"
    "text_w (compute_layout sample_lib 200 100 ''made by afthab'') = 168"
    "text_h (compute_layout sample_lib 200 100 ''made by afthab'') = 24"
    "bg_padding_x (compute_layout sample_lib 200 100 ''made by afthab'') = 6"
    "bg_padding_y (compute_layout sample_lib 200 100 ''made by afthab'') = 4"
    by (simp_all add: layout_fields(1,3,4,5,8,9))
  from coordinates_on_canvas_iff_label_fits [OF wide_world_image(1,4) sample_layout_wide(2)]
  have "list_all (in_canvas (200, 100))
        (referenced_coords (drop (length (drawn wide_world))
           (drawn (snd (apply_watermark sample_lib 0 ''made by afthab'' wide_world)))))"
    by (simp add: g)
  with g(2,3) wide_world_image(1,4) sample_layout_wide(2) show ?thesis by blast
qed

text \<open>
  C8. A URL whose scheme is neither \<open>http\<close> nor \<open>https\<close> makes the watermark operation fail
  with HTTP 400 and leaves the state as it was: no fetch has been made. With a valid scheme, a
  fetch that raises, an answer whose status is not 200 and bytes that do not decode each make it
  fail with HTTP 400, after the one fetch. Every error of the loader is an HTTP 400 with one
  of two short details.
\<close>

theorem loader_failures_are_400:
  "(urlparse_scheme L url = Inr sch \<and> sch \<noteq> ''http'' \<and> sch \<noteq> ''https'' \<longrightarrow>
      watermark_image L url text_arg s =
        (Inl (HTTPException 400 ''Unable to load image from URL''), s))
   \<and> (urlparse_scheme L url = Inr sch \<and> sch \<in> {''http'', ''https''}
        \<and> requests_get L url = Inl e \<longrightarrow>
      watermark_image L url text_arg s =
        (Inl (HTTPException 400 ''Unable to load image from URL''),
         s\<lparr>fetched := fetched s @ [url]\<rparr>))
   \<and> (urlparse_scheme L url = Inr sch \<and> sch \<in> {''http'', ''https''}
        \<and> requests_get L url = Inr (code, content) \<and> code \<noteq> 200 \<longrightarrow>
      watermark_image L url text_arg s =
        (Inl (HTTPException 400 ''Failed to fetch source image''),
         s\<lparr>fetched := fetched s @ [url]\<rparr>))
   \<and> (urlparse_scheme L url = Inr sch \<and> sch \<in> {''http'', ''https''}
        \<and> requests_get L url = Inr (200, content) \<and> image_open L content = Inl e' \<longrightarrow>
      watermark_image L url text_arg s =
        (Inl (HTTPException 400 ''Unable to load image from URL''),
         s\<lparr>fetched := fetched s @ [url]\<rparr>))
   \<and> (fst (load_image_from_url L url s) = Inl x \<longrightarrow>
        x \<in> {HTTPException 400 ''Failed to fetch source image'',
              HTTPException 400 ''Unable to load image from URL''})"
proof (intro conjI impI)
  assume "urlparse_scheme L url = Inr sch \<and> sch \<noteq> ''http'' \<and> sch \<noteq> ''https''"
  then show "watermark_image L url text_arg s =
      (Inl (HTTPException 400 ''Unable to load image from URL''), s)"
    by (simp add: watermark_image_def load_image_from_url_def load_image_body_def)
next
  assume "urlparse_scheme L url = Inr sch \<and> sch \<in> {''http'', ''https''}
     \<and> requests_get L url = Inl e"
  then show "watermark_image L url text_arg s =
      (Inl (HTTPException 400 ''Unable to load image from URL''), s\<lparr>fetched := fetched s @ [url]\<rparr>)"
    by (auto simp add: watermark_image_def load_image_from_url_def load_image_body_def Let_def)
next
  assume "urlparse_scheme L url = Inr sch \<and> sch \<in> {''http'', ''https''}
     \<and> requests_get L url = Inr (code, content) \<and> code \<noteq> 200"
  then show "watermark_image L url text_arg s =
      (Inl (HTTPException 400 ''Failed to fetch source image''), s\<lparr>fetched := fetched s @ [url]\<rparr>)"
    by (auto simp add: watermark_image_def load_image_from_url_def load_image_body_def Let_def)
next
  assume "urlparse_scheme L url = Inr sch \<and> sch \<in> {''http'', ''https''}
     \<and> requests_get L url = Inr (200, content) \<and> image_open L content = Inl e'"
  then show "watermark_image L url text_arg s =
      (Inl (HTTPException 400 ''Unable to load image from URL''), s\<lparr>fetched := fetched s @ [url]\<rparr>)"
    by (auto simp add: watermark_image_def load_image_from_url_def load_image_body_def Let_def)
next
  assume "fst (load_image_from_url L url s) = Inl x"
  then show "x \<in> {HTTPException 400 ''Failed to fetch source image'',
                  HTTPException 400 ''Unable to load image from URL''}"
    by (auto simp add: load_image_from_url_def load_image_body_def Let_def
        split: sum.splits prod.splits if_splits exn.splits)
qed

theorem loader_failures_are_400_witness:
  "urlparse_scheme sample_lib ''ftp://a/ok.png'' = Inr ''ftp''
   \<and> watermark_image sample_lib ''ftp://a/ok.png'' None empty_world =
       (Inl (HTTPException 400 ''Unable to load image from URL''), empty_world)
   \<and> fetched empty_world = []
   \<and> urlparse_scheme sample_lib ''http://b/down.png'' = Inr ''http''
   \<and> requests_get sample_lib ''http://b/down.png'' = Inl (RequestException ''connection refused'')
   \<and> watermark_image sample_lib ''http://b/down.png'' None empty_world =
       (Inl (HTTPException 400 ''Unable to load image from URL''),
        empty_world\<lparr>fetched := fetched empty_world @ [''http://b/down.png'']\<rparr>)
   \<and> requests_get sample_lib ''http://a/gone.png'' = Inr (404, [])
   \<and> watermark_image sample_lib ''http://a/gone.png'' None empty_world =
       (Inl (HTTPException 400 ''Failed to fetch source image''),
        empty_world\<lparr>fetched := fetched empty_world @ [''http://a/gone.png'']\<rparr>)
   \<and> requests_get sample_lib ''http://a/page.html'' = Inr (200, [60, 104])
   \<and> image_open sample_lib [60, 104] = Inl (UnidentifiedImageError ''cannot identify image file'')
   \<and> watermark_image sample_lib ''http://a/page.html'' None empty_world =
       (Inl (HTTPException 400 ''Unable to load image from URL''),
        empty_world\<lparr>fetched := fetched empty_world @ [''http://a/page.html'']\<rparr>)"
proof -
  have a: "urlparse_scheme sample_lib ''ftp://a/ok.png'' = Inr ''ftp''"
    by (simp add: sample_lib_def)
  have b: "urlparse_scheme sample_lib ''http://b/down.png'' = Inr ''http''"
    "requests_get sample_lib ''http://b/down.png'' = Inl (RequestException ''connection refused'')"
    by (simp_all add: sample_lib_def)
  have c: "urlparse_scheme sample_lib ''http://a/gone.png'' = Inr ''http''"
    "requests_get sample_lib ''http://a/gone.png'' = Inr (404, [])"
    by (simp_all add: sample_lib_def)
  have d: "urlparse_scheme sample_lib ''http://a/page.html'' = Inr ''http''"
    "requests_get sample_lib ''http://a/page.html'' = Inr (200, [60, 104])"
    "image_open sample_lib [60, 104] = Inl (UnidentifiedImageError ''cannot identify image file'')"
    by (simp_all add: sample_lib_def)
  have f: "fetched empty_world = []"
    by (simp add: empty_world_def)
  have ra: "watermark_image sample_lib ''ftp://a/ok.png'' None empty_world =
       (Inl (HTTPException 400 ''Unable to load image from URL''), empty_world)"
    using loader_failures_are_400 [where L = sample_lib and url = "''ftp://a/ok.png''"
        and sch = "''ftp''" and text_arg = None and s = empty_world] a
    by simp
  have rb: "watermark_image sample_lib ''http://b/down.png'' None empty_world =
       (Inl (HTTPException 400 ''Unable to load image from URL''),
        empty_world\<lparr>fetched := fetched empty_world @ [''http://b/down.png'']\<rparr>)"
    using loader_failures_are_400 [where L = sample_lib and url = "''http://b/down.png''"
        and sch = "''http''" and text_arg = None and s = empty_world
        and e = "RequestException ''connection refused''"] b
    by simp
  have rc: "watermark_image sample_lib ''http://a/gone.png'' None empty_world =
       (Inl (HTTPException 400 ''Failed to fetch source image''),
        empty_world\<lparr>fetched := fetched empty_world @ [''http://a/gone.png'']\<rparr>)"
    using loader_failures_are_400 [where L = sample_lib and url = "''http://a/gone.png''"
        and sch = "''http''" and text_arg = None and s = empty_world
        and code = 404 and content = "[]"] c
    by simp
  have rd: "watermark_image sample_lib ''http://a/page.html'' None empty_world =
       (Inl (HTTPException 400 ''Unable to load image from URL''),
        empty_world\<lparr>fetched := fetched empty_world @ [''http://a/page.html'']\<rparr>)"
    using loader_failures_are_400 [where L = sample_lib and url = "''http://a/page.html''"
        and sch = "''http''" and text_arg = None and s = empty_world
        and content = "[60, 104]"
        and e' = "UnidentifiedImageError ''cannot identify image file''"] d
    by simp
  from a b c(2) d(2,3) f ra rb rc rd show ?thesis by blast
qed

text \<open>
  C10. The endpoint passes the default text \<open>made by afthab\<close> to the compositor both when
  the \<open>text\<close> parameter is absent and when it is the empty string: the two requests give the
  same result, that of compositing with the default text.
\<close>

theorem falsy_text_uses_default:
  "wm_text None = ''made by afthab''
   \<and> wm_text (Some '''') = ''made by afthab''
   \<and> watermark_image L url (Some '''') s = watermark_image L url None s
   \<and> watermark_image L url None s =
       (case load_image_from_url L url s of
          (Inl e, s1) \<Rightarrow> (Inl e, s1)
        | (Inr img, s1) \<Rightarrow>
            (case apply_watermark L img ''made by afthab'' s1 of
               (Inl e, s2) \<Rightarrow> (Inl (Raised e), s2)
             | (Inr out, s2) \<Rightarrow>
                 (case save_jpeg L (heap s2 ! out) 90 True of
                    Inl e \<Rightarrow> (Inl (Raised e), s2)
                  | Inr buf \<Rightarrow> (Inr \<lparr>body = buf, media_type = ''image/jpeg''\<rparr>, s2))))"
proof -
  have a: "wm_text None = ''made by afthab''"
    by (simp add: wm_text_def)
  have b: "wm_text (Some '''') = ''made by afthab''"
    by (simp add: wm_text_def)
  have c: "watermark_image L url (Some '''') s = watermark_image L url None s"
    unfolding watermark_image_def a b ..
  have d: "watermark_image L url None s =
       (case load_image_from_url L url s of
          (Inl e, s1) \<Rightarrow> (Inl e, s1)
        | (Inr img, s1) \<Rightarrow>
            (case apply_watermark L img ''made by afthab'' s1 of
               (Inl e, s2) \<Rightarrow> (Inl (Raised e), s2)
             | (Inr out, s2) \<Rightarrow>
                 (case save_jpeg L (heap s2 ! out) 90 True of
                    Inl e \<Rightarrow> (Inl (Raised e), s2)
                  | Inr buf \<Rightarrow> (Inr \<lparr>body = buf, media_type = ''image/jpeg''\<rparr>, s2))))"
    unfolding watermark_image_def a ..
  show ?thesis
    by (intro conjI) (rule a, rule b, rule c, rule d)
qed

theorem falsy_text_uses_default_witness:
  "load_image_from_url sample_lib ''http://a/ok.png'' empty_world = (Inr 1, loaded_world)
   \<and> watermark_image sample_lib ''http://a/ok.png'' (Some '''') empty_world =
       watermark_image sample_lib ''http://a/ok.png'' None empty_world
   \<and> fst (watermark_image sample_lib ''http://a/ok.png'' (Some '''') empty_world) =
       Inr \<lparr>body = [255, 216, 255], media_type = ''image/jpeg''\<rparr>
   \<and> drop 1 (drawn (snd (watermark_image sample_lib ''http://a/ok.png'' (Some '''') empty_world))) =
       [(3, Text (- 177, - 34) ''made by afthab'' (FreeTypeFont ''DejaVuSans.ttf'' 24) (0, 0, 0, 200)),
        (3, Text (- 178, - 35) ''made by afthab'' (FreeTypeFont ''DejaVuSans.ttf'' 24)
              (255, 255, 255, 220))]"
proof -
  let ?t = "''made by afthab''"
  have ld: "load_image_from_url sample_lib ''http://a/ok.png'' empty_world = (Inr 1, loaded_world)"
    by (rule sample_load)
  have f: "font (compute_layout sample_lib 2 1 ?t) = FreeTypeFont ''DejaVuSans.ttf'' 24"
    by (simp add: layout_fields(1,2) truetype_def sample_lib_def)
  have box: "bbox_ok (getbbox sample_lib (font (compute_layout sample_lib 2 1 ?t)) ?t)"
    unfolding f by (simp add: bbox_ok_def sample_lib_def)
  have "textbbox sample_lib (0, 0) ?t (font (compute_layout sample_lib 2 1 ?t)) = (0, 0, 168, 24)"
    unfolding f by (simp add: textbbox_def sample_lib_def)
  then have g: "font_size (compute_layout sample_lib 2 1 ?t) = 24"
    "xpos (compute_layout sample_lib 2 1 ?t) = - 178"
    "ypos (compute_layout sample_lib 2 1 ?t) = - 35"
    "shadow_offset (compute_layout sample_lib 2 1 ?t) = 1"
    by (simp_all add: layout_fields(1,3,4,5,6,7,11))
  have w: "mode (heap loaded_world ! 1) = RGBA" "isize (heap loaded_world ! 1) = (2, 1)"
    "length (heap loaded_world) = 2" "drawn loaded_world = []"
    by (simp_all add: loaded_world_def)
  note run = apply_watermark_run [OF w(1,2) box]
  have sv: "save_jpeg sample_lib im 90 True = Inr [255, 216, 255]" for im
    by (simp add: sample_lib_def)
  from falsy_text_uses_default [of sample_lib "''http://a/ok.png''" empty_world]
  have eq: "watermark_image sample_lib ''http://a/ok.png'' (Some '''') empty_world =
       watermark_image sample_lib ''http://a/ok.png'' None empty_world"
    and ex: "watermark_image sample_lib ''http://a/ok.png'' None empty_world =
       (case load_image_from_url sample_lib ''http://a/ok.png'' empty_world of
          (Inl e, s1) \<Rightarrow> (Inl e, s1)
        | (Inr img, s1) \<Rightarrow>
            (case apply_watermark sample_lib img ?t s1 of
               (Inl e, s2) \<Rightarrow> (Inl (Raised e), s2)
             | (Inr out, s2) \<Rightarrow>
                 (case save_jpeg sample_lib (heap s2 ! out) 90 True of
                    Inl e \<Rightarrow> (Inl (Raised e), s2)
                  | Inr buf \<Rightarrow> (Inr \<lparr>body = buf, media_type = ''image/jpeg''\<rparr>, s2))))"
    by blast+
  have r1: "fst (watermark_image sample_lib ''http://a/ok.png'' None empty_world) =
       Inr \<lparr>body = [255, 216, 255], media_type = ''image/jpeg''\<rparr>"
    unfolding ex ld by (simp add: run [unfolded One_nat_def] sv)
  have r2: "drop 1 (drawn (snd (watermark_image sample_lib ''http://a/ok.png'' None empty_world))) =
       [(3, Text (- 177, - 34) ?t (FreeTypeFont ''DejaVuSans.ttf'' 24) (0, 0, 0, 200)),
        (3, Text (- 178, - 35) ?t (FreeTypeFont ''DejaVuSans.ttf'' 24) (255, 255, 255, 220))]"
    unfolding ex ld by (simp add: run [unfolded One_nat_def] sv w(3,4) g f)
  from ld eq r1 r2 show ?thesis by simp
qed

end
